theory Spec2Isabelle
  imports Complex_Main
begin

section \<open>Python values used by the video splitter\<close>

text \<open>
  The program under study is \<^verbatim>\<open>src/app.py\<close>, a Streamlit front end around
  \<^verbatim>\<open>ffmpeg\<close> and \<^verbatim>\<open>yt-dlp\<close>. Its logic lives in the methods of
  \<^verbatim>\<open>VideoSplitterApp\<close> and in the segment loops of \<^verbatim>\<open>main\<close>.

  Python floats are modelled by \<open>pyfloat\<close>: a finite float is an exact rational
  (every finite double is one), and the three special values that \<^verbatim>\<open>float()\<close>
  can produce from text are kept as constructors. Arithmetic on finite values is exact:
  rounding to 53 bits, overflow to infinity and the sign of zero are idealised away.
  The special values follow IEEE 754 as Python exposes it (comparisons with NaN are false,
  \<^verbatim>\<open>inf - inf\<close> is NaN, division by zero raises).
  Integers are unbounded, as in Python; the \<^verbatim>\<open>OverflowError\<close> of converting an
  integer beyond the double range to a float is part of the idealisation.
\<close>

datatype pyfloat = Finite rat | PInf | NInf | NaN

text \<open>The exceptions that the modelled code can raise.\<close>

datatype exn = ValueError | TypeError | ZeroDivisionError | OverflowError | TimeoutExpired

definition f_of_int :: "int \<Rightarrow> pyfloat" where
  "f_of_int i = Finite (of_int i)"

fun f_neg :: "pyfloat \<Rightarrow> pyfloat" where
  "f_neg (Finite a) = Finite (- a)"
| "f_neg PInf = NInf"
| "f_neg NInf = PInf"
| "f_neg NaN = NaN"

fun f_add :: "pyfloat \<Rightarrow> pyfloat \<Rightarrow> pyfloat" where
  "f_add (Finite a) (Finite b) = Finite (a + b)"
| "f_add NaN _ = NaN"
| "f_add _ NaN = NaN"
| "f_add PInf NInf = NaN"
| "f_add NInf PInf = NaN"
| "f_add PInf _ = PInf"
| "f_add NInf _ = NInf"
| "f_add _ PInf = PInf"
| "f_add _ NInf = NInf"

definition f_sub :: "pyfloat \<Rightarrow> pyfloat \<Rightarrow> pyfloat" where
  "f_sub a b = f_add a (f_neg b)"

fun f_abs :: "pyfloat \<Rightarrow> pyfloat" where
  "f_abs (Finite a) = Finite \<bar>a\<bar>"
| "f_abs PInf = PInf"
| "f_abs NInf = PInf"
| "f_abs NaN = NaN"

text \<open>The sign of a value as \<open>-1\<close>, \<open>0\<close> or \<open>1\<close>; NaN has none.\<close>

fun f_sign :: "pyfloat \<Rightarrow> int" where
  "f_sign (Finite a) = (if a < 0 then - 1 else if a = 0 then 0 else 1)"
| "f_sign PInf = 1"
| "f_sign NInf = - 1"
| "f_sign NaN = 0"

definition f_inf_of_sign :: "int \<Rightarrow> pyfloat" where
  "f_inf_of_sign s = (if s < 0 then NInf else if s = 0 then NaN else PInf)"

fun f_mul :: "pyfloat \<Rightarrow> pyfloat \<Rightarrow> pyfloat" where
  "f_mul (Finite a) (Finite b) = Finite (a * b)"
| "f_mul NaN _ = NaN"
| "f_mul _ NaN = NaN"
| "f_mul a b = f_inf_of_sign (f_sign a * f_sign b)"

text \<open>
  Python's true division \<^verbatim>\<open>a / b\<close> on floats (an \<^verbatim>\<open>int\<close> operand is
  converted first): a zero divisor raises \<^verbatim>\<open>ZeroDivisionError\<close> whatever the
  dividend is.
\<close>

fun f_div :: "pyfloat \<Rightarrow> pyfloat \<Rightarrow> exn + pyfloat" where
  "f_div a (Finite b) =
     (if b = 0 then Inl ZeroDivisionError
      else (case a of
              Finite c \<Rightarrow> Inr (Finite (c / b))
            | NaN \<Rightarrow> Inr NaN
            | _ \<Rightarrow> Inr (f_inf_of_sign (f_sign a * f_sign (Finite b)))))"
| "f_div _ NaN = Inr NaN"
| "f_div (Finite c) _ = Inr (Finite 0)"
| "f_div _ _ = Inr NaN"

fun f_lt :: "pyfloat \<Rightarrow> pyfloat \<Rightarrow> bool" where
  "f_lt (Finite a) (Finite b) = (a < b)"
| "f_lt NaN _ = False"
| "f_lt _ NaN = False"
| "f_lt NInf b = (b \<noteq> NInf)"
| "f_lt a PInf = (a \<noteq> PInf)"
| "f_lt _ _ = False"

definition f_gt :: "pyfloat \<Rightarrow> pyfloat \<Rightarrow> bool" where
  "f_gt a b = f_lt b a"

fun f_ge :: "pyfloat \<Rightarrow> pyfloat \<Rightarrow> bool" where
  "f_ge NaN _ = False"
| "f_ge _ NaN = False"
| "f_ge a b = (\<not> f_lt a b)"

text \<open>
  \<^verbatim>\<open>int(x)\<close> on a float truncates towards zero; it raises
  \<^verbatim>\<open>ValueError\<close> on NaN and \<^verbatim>\<open>OverflowError\<close> on an infinity.
\<close>

definition trunc :: "rat \<Rightarrow> int" where
  "trunc q = (if 0 \<le> q then \<lfloor>q\<rfloor> else \<lceil>q\<rceil>)"

fun int_of_float :: "pyfloat \<Rightarrow> exn + int" where
  "int_of_float (Finite q) = Inr (trunc q)"
| "int_of_float NaN = Inl ValueError"
| "int_of_float _ = Inl OverflowError"

section \<open>Crop geometry: \<^verbatim>\<open>calculate_crop_dimensions\<close>\<close>

text \<open>
  The dictionary returned by \<^verbatim>\<open>calculate_crop_dimensions\<close>, with its keys
  \<^verbatim>\<open>'width'\<close>, \<^verbatim>\<open>'height'\<close>, \<^verbatim>\<open>'x'\<close> and \<^verbatim>\<open>'y'\<close>.
\<close>

record crop_info =
  crop_width :: int
  crop_height :: int
  crop_x :: int
  crop_y :: int

text \<open>
  Lines 176 to 185: each of the four numbers loses its remainder modulo 2. Python's
  \<^verbatim>\<open>%\<close> and \<^verbatim>\<open>//\<close> on integers are floored, as \<open>mod\<close> and \<open>div\<close> on \<open>int\<close> are.
\<close>

definition ensure_even :: "int \<Rightarrow> int \<Rightarrow> int \<Rightarrow> int \<Rightarrow> crop_info" where
  "ensure_even new_width new_height cx cy =
     \<lparr>crop_width = new_width - new_width mod 2,
      crop_height = new_height - new_height mod 2,
      crop_x = cx - cx mod 2,
      crop_y = cy - cy mod 2\<rparr>"

definition calculate_crop_dimensions ::
  "int \<Rightarrow> int \<Rightarrow> (pyfloat \<times> pyfloat) option \<Rightarrow> exn + crop_info option" where
  "calculate_crop_dimensions original_width original_height target_ratio =
     (case target_ratio of
        None \<Rightarrow> Inr None
      | Some (target_width, target_height) \<Rightarrow>
          (case f_div target_width target_height of
             Inl e \<Rightarrow> Inl e
           | Inr target_aspect \<Rightarrow>
               (case f_div (f_of_int original_width) (f_of_int original_height) of
                  Inl e \<Rightarrow> Inl e
                | Inr original_aspect \<Rightarrow>
                    if f_lt (f_abs (f_sub target_aspect original_aspect)) (Finite (1 / 100))
                    then Inr None
                    else if f_gt target_aspect original_aspect
                    then (case f_div (f_of_int original_width) target_aspect of
                            Inl e \<Rightarrow> Inl e
                          | Inr q \<Rightarrow>
                              (case int_of_float q of
                                 Inl e \<Rightarrow> Inl e
                               | Inr new_height \<Rightarrow>
                                   Inr (Some (ensure_even original_width new_height 0
                                     ((original_height - new_height) div 2)))))
                    else (case int_of_float (f_mul (f_of_int original_height) target_aspect) of
                            Inl e \<Rightarrow> Inl e
                          | Inr new_width \<Rightarrow>
                              Inr (Some (ensure_even new_width original_height
                                ((original_width - new_width) div 2) 0))))))"

section \<open>Text conversions: \<^verbatim>\<open>str.strip\<close>, \<^verbatim>\<open>str.split\<close>, \<^verbatim>\<open>int()\<close>, \<^verbatim>\<open>float()\<close>\<close>

text \<open>
  Strings are ASCII character lists. \<^verbatim>\<open>str.strip()\<close> and the two conversions drop
  leading and trailing white space: tab, line feed, vertical tab, form feed, carriage
  return, the four separators \<^verbatim>\<open>\x1c\<close> to \<^verbatim>\<open>\x1f\<close> and the space.
\<close>

definition is_space :: "char \<Rightarrow> bool" where
  "is_space c = (c \<in> set [CHR 0x09, CHR 0x0A, CHR 0x0B, CHR 0x0C, CHR 0x0D,
                           CHR 0x1C, CHR 0x1D, CHR 0x1E, CHR 0x1F, CHR '' ''])"

definition strip :: "string \<Rightarrow> string" where
  "strip s = rev (dropWhile is_space (rev (dropWhile is_space s)))"

definition lower_chr :: "char \<Rightarrow> char" where
  "lower_chr c =
     (case map_of (zip ''ABCDEFGHIJKLMNOPQRSTUVWXYZ'' ''abcdefghijklmnopqrstuvwxyz'') c of
        None \<Rightarrow> c
      | Some d \<Rightarrow> d)"

definition lower :: "string \<Rightarrow> string" where
  "lower s = map lower_chr s"

text \<open>
  \<^verbatim>\<open>s.split(sep)\<close> with a one-character separator: the pieces between the
  separators, so that an empty string gives one empty piece.
\<close>

fun split_on :: "char \<Rightarrow> string \<Rightarrow> string list" where
  "split_on sep [] = [[]]"
| "split_on sep (c # cs) =
     (if c = sep then [] # split_on sep cs
      else (case split_on sep cs of
              [] \<Rightarrow> [[c]]
            | p # ps \<Rightarrow> (c # p) # ps))"

definition is_digit :: "char \<Rightarrow> bool" where
  "is_digit c = (c \<in> set ''0123456789'')"

definition digit_val :: "char \<Rightarrow> nat" where
  "digit_val c = (case map_of (zip ''0123456789'' [0, 1, 2, 3, 4, 5, 6, 7, 8, 9]) c of
                    None \<Rightarrow> 0
                  | Some d \<Rightarrow> d)"

text \<open>
  The grammar \<^verbatim>\<open>digitpart ::= digit (["_"] digit)*\<close> of both conversions: digits with
  single underscores allowed between them.
\<close>

fun digitpart :: "string \<Rightarrow> bool" where
  "digitpart [] = False"
| "digitpart [c] = is_digit c"
| "digitpart (c # d # cs) =
     (is_digit c \<and> (if d = CHR ''_'' then digitpart cs else digitpart (d # cs)))"

definition digits_val :: "string \<Rightarrow> nat" where
  "digits_val s = foldl (\<lambda>a c. 10 * a + digit_val c) 0 (filter is_digit s)"

definition digits_count :: "string \<Rightarrow> nat" where
  "digits_count s = length (filter is_digit s)"

definition split_sign :: "string \<Rightarrow> bool \<times> string" where
  "split_sign s =
     (case s of
        [] \<Rightarrow> (False, [])
      | c # cs \<Rightarrow>
          if c = CHR ''-'' then (True, cs)
          else if c = CHR ''+'' then (False, cs)
          else (False, s))"

text \<open>
  \<^verbatim>\<open>int(text)\<close> in base 10: optional sign, then a \<open>digitpart\<close>;
  \<^verbatim>\<open>ValueError\<close> otherwise.
\<close>

definition py_int :: "string \<Rightarrow> exn + int" where
  "py_int text =
     (case split_sign (strip text) of
        (neg, body) \<Rightarrow>
          if digitpart body
          then Inr (if neg then - int (digits_val body) else int (digits_val body))
          else Inl ValueError)"

text \<open>
  \<^verbatim>\<open>float(text)\<close>: optional sign, then \<^verbatim>\<open>inf\<close>, \<^verbatim>\<open>infinity\<close> or
  \<^verbatim>\<open>nan\<close> in any letter case, or a decimal number
  \<^verbatim>\<open>([digitpart] "." digitpart | digitpart ["."]) [("e" | "E") [sign] digitpart]\<close>.
\<close>

definition parse_mantissa :: "string \<Rightarrow> rat option" where
  "parse_mantissa m =
     (let ip = takeWhile (\<lambda>c. c \<noteq> CHR ''.'') m;
          rest = dropWhile (\<lambda>c. c \<noteq> CHR ''.'') m
      in case rest of
           [] \<Rightarrow> if digitpart ip then Some (of_nat (digits_val ip)) else None
         | _ # fp \<Rightarrow>
             if (ip = [] \<or> digitpart ip) \<and> (fp = [] \<or> digitpart fp) \<and> (ip \<noteq> [] \<or> fp \<noteq> [])
             then Some (of_nat (digits_val ip) + of_nat (digits_val fp) / 10 ^ digits_count fp)
             else None)"

definition parse_exponent :: "string \<Rightarrow> int option" where
  "parse_exponent e =
     (case split_sign e of
        (neg, body) \<Rightarrow>
          if digitpart body
          then Some (if neg then - int (digits_val body) else int (digits_val body))
          else None)"

definition scale10 :: "rat \<Rightarrow> int \<Rightarrow> rat" where
  "scale10 m e = (if 0 \<le> e then m * 10 ^ nat e else m / 10 ^ nat (- e))"

definition not_exp_mark :: "char \<Rightarrow> bool" where
  "not_exp_mark c = (c \<noteq> CHR ''e'' \<and> c \<noteq> CHR ''E'')"

definition py_float :: "string \<Rightarrow> exn + pyfloat" where
  "py_float text =
     (case split_sign (strip text) of
        (neg, body) \<Rightarrow>
          if lower body = ''inf'' \<or> lower body = ''infinity''
          then Inr (if neg then NInf else PInf)
          else if lower body = ''nan'' then Inr NaN
          else (case parse_mantissa (takeWhile not_exp_mark body) of
                  None \<Rightarrow> Inl ValueError
                | Some m \<Rightarrow>
                    (case dropWhile not_exp_mark body of
                       [] \<Rightarrow> Inr (Finite (if neg then - m else m))
                     | _ # ex \<Rightarrow>
                         (case parse_exponent ex of
                            None \<Rightarrow> Inl ValueError
                          | Some e \<Rightarrow>
                              Inr (Finite (if neg then - scale10 m e else scale10 m e))))))"

section \<open>Time and ratio parsing\<close>

text \<open>
  \<^verbatim>\<open>parse_time_input\<close> returns a float, or falls off the end of the
  \<^verbatim>\<open>if ':' in time_str\<close> branch when the text has neither two nor three
  colon-separated parts, which in Python returns \<^verbatim>\<open>None\<close>.
\<close>

datatype pyval = PyNone | PyFloat pyfloat

definition parse_time_input :: "string \<Rightarrow> exn + pyval" where
  "parse_time_input text =
     (let time_str = strip text in
      if CHR '':'' \<in> set time_str
      then (case split_on CHR '':'' time_str of
              [minutes, seconds] \<Rightarrow>
                (case py_int minutes of
                   Inl e \<Rightarrow> Inl e
                 | Inr m \<Rightarrow>
                     (case py_float seconds of
                        Inl e \<Rightarrow> Inl e
                      | Inr s \<Rightarrow> Inr (PyFloat (f_add (f_of_int (m * 60)) s))))
            | [hours, minutes, seconds] \<Rightarrow>
                (case py_int hours of
                   Inl e \<Rightarrow> Inl e
                 | Inr h \<Rightarrow>
                     (case py_int minutes of
                        Inl e \<Rightarrow> Inl e
                      | Inr m \<Rightarrow>
                          (case py_float seconds of
                             Inl e \<Rightarrow> Inl e
                           | Inr s \<Rightarrow>
                               Inr (PyFloat (f_add (f_of_int (h * 3600 + m * 60)) s)))))
            | _ \<Rightarrow> Inr PyNone)
      else (case py_float time_str of
              Inl e \<Rightarrow> Inl e
            | Inr v \<Rightarrow> Inr (PyFloat v)))"

text \<open>
  \<^verbatim>\<open>parse_aspect_ratio\<close>: \<^verbatim>\<open>None\<close> for the word \<^verbatim>\<open>original\<close>, an explicit
  \<^verbatim>\<open>ValueError\<close> without a colon, and the tuple unpacking of line 150 raises
  \<^verbatim>\<open>ValueError\<close> unless the split gives exactly two parts.
\<close>

definition parse_aspect_ratio :: "string \<Rightarrow> exn + (pyfloat \<times> pyfloat) option" where
  "parse_aspect_ratio ratio_str =
     (if lower ratio_str = ''original'' then Inr None
      else if CHR '':'' \<notin> set ratio_str then Inl ValueError
      else (case split_on CHR '':'' ratio_str of
              [width, height] \<Rightarrow>
                (case py_float width of
                   Inl e \<Rightarrow> Inl e
                 | Inr w \<Rightarrow>
                     (case py_float height of
                        Inl e \<Rightarrow> Inl e
                      | Inr h \<Rightarrow> Inr (Some (w, h))))
            | _ \<Rightarrow> Inl ValueError))"

section \<open>Segment configuration: the first loop of \<^verbatim>\<open>main\<close>\<close>

text \<open>
  One request holds the three widget values of a segment: the start text, the end text
  and the chosen ratio text. An accepted request becomes the dictionary appended to
  \<^verbatim>\<open>segments\<close>; its keys \<^verbatim>\<open>'start'\<close>, \<^verbatim>\<open>'end'\<close>, \<^verbatim>\<open>'duration'\<close>,
  \<^verbatim>\<open>'aspect_ratio'\<close> and \<^verbatim>\<open>'ratio_text'\<close> are the fields below.
\<close>

type_synonym request = "string \<times> string \<times> string"

record segment =
  seg_start :: pyfloat
  seg_end :: pyfloat
  seg_duration :: pyfloat
  seg_aspect_ratio :: "(pyfloat \<times> pyfloat) option"
  seg_ratio_text :: string

text \<open>
  What one iteration shows for segment number \<open>n\<close> (that is \<^verbatim>\<open>i+1\<close>):
  \<^item> \<open>StartNotBeforeEnd n\<close>: \<^verbatim>\<open>st.error\<close> "Start time must be less than end time";
  \<^item> \<open>StartExceedsDuration n\<close>: \<^verbatim>\<open>st.error\<close> "Start time exceeds video duration";
  \<^item> \<open>InvalidFormat n\<close>: \<^verbatim>\<open>st.error\<close> "Invalid time format", from
    \<^verbatim>\<open>except ValueError\<close>;
  \<^item> \<open>Accepted n warned seg\<close>: the segment is appended and \<^verbatim>\<open>st.success\<close> shown;
    \<open>warned\<close> tells whether \<^verbatim>\<open>st.warning\<close> announced a clamped end time.
\<close>

datatype outcome =
    StartNotBeforeEnd nat
  | StartExceedsDuration nat
  | InvalidFormat nat
  | Accepted nat bool segment

text \<open>
  The body of the \<^verbatim>\<open>try\<close> block, lines 345 to 371. A comparison with
  \<^verbatim>\<open>None\<close> raises \<^verbatim>\<open>TypeError\<close>; it happens at the first comparison, after
  both texts have been parsed.
\<close>

definition validate_segment ::
  "pyfloat \<Rightarrow> nat \<Rightarrow> string \<Rightarrow> string \<Rightarrow> string \<Rightarrow> exn + outcome" where
  "validate_segment video_duration i start_time end_time aspect_ratio =
     (case parse_time_input start_time of
        Inl e \<Rightarrow> Inl e
      | Inr start_value \<Rightarrow>
          (case parse_time_input end_time of
             Inl e \<Rightarrow> Inl e
           | Inr end_value \<Rightarrow>
               (case (start_value, end_value) of
                  (PyFloat start_seconds, PyFloat end_seconds) \<Rightarrow>
                    if f_ge start_seconds end_seconds then Inr (StartNotBeforeEnd (i + 1))
                    else if f_ge start_seconds video_duration
                    then Inr (StartExceedsDuration (i + 1))
                    else (let warned = f_gt end_seconds video_duration;
                              end_seconds = (if warned then video_duration else end_seconds);
                              duration = f_sub end_seconds start_seconds
                          in case parse_aspect_ratio aspect_ratio of
                               Inl e \<Rightarrow> Inl e
                             | Inr parsed_ratio \<Rightarrow>
                                 Inr (Accepted (i + 1) warned
                                   \<lparr>seg_start = start_seconds,
                                    seg_end = end_seconds,
                                    seg_duration = duration,
                                    seg_aspect_ratio = parsed_ratio,
                                    seg_ratio_text = aspect_ratio\<rparr>))
                | _ \<Rightarrow> Inl TypeError)))"

text \<open>
  One iteration, lines 343 to 374: nothing happens unless both texts are non-empty;
  \<^verbatim>\<open>except ValueError\<close> turns that exception into an error entry and lets every
  other exception through.
\<close>

definition configure_segment :: "pyfloat \<Rightarrow> nat \<Rightarrow> request \<Rightarrow> exn + outcome option" where
  "configure_segment video_duration i req =
     (case req of
        (start_time, end_time, aspect_ratio) \<Rightarrow>
          if start_time \<noteq> [] \<and> end_time \<noteq> []
          then (case validate_segment video_duration i start_time end_time aspect_ratio of
                  Inl ValueError \<Rightarrow> Inr (Some (InvalidFormat (i + 1)))
                | Inl e \<Rightarrow> Inl e
                | Inr out \<Rightarrow> Inr (Some out))
          else Inr None)"

text \<open>
  The loop \<^verbatim>\<open>for i in range(num_segments)\<close> over the requests, from index \<open>i\<close> on.
  An exception that escapes an iteration ends the script run.
\<close>

fun configure_segments :: "pyfloat \<Rightarrow> nat \<Rightarrow> request list \<Rightarrow> exn + outcome list" where
  "configure_segments video_duration i [] = Inr []"
| "configure_segments video_duration i (req # reqs) =
     (case configure_segment video_duration i req of
        Inl e \<Rightarrow> Inl e
      | Inr out \<Rightarrow>
          (case configure_segments video_duration (Suc i) reqs of
             Inl e \<Rightarrow> Inl e
           | Inr outs \<Rightarrow> Inr (case out of None \<Rightarrow> outs | Some v \<Rightarrow> v # outs)))"

fun accepted_segments :: "outcome list \<Rightarrow> segment list" where
  "accepted_segments [] = []"
| "accepted_segments (Accepted n warned seg # outs) = seg # accepted_segments outs"
| "accepted_segments (_ # outs) = accepted_segments outs"

fun outcome_index :: "outcome \<Rightarrow> nat" where
  "outcome_index (StartNotBeforeEnd n) = n"
| "outcome_index (StartExceedsDuration n) = n"
| "outcome_index (InvalidFormat n) = n"
| "outcome_index (Accepted n warned seg) = n"

fun is_error_entry :: "outcome \<Rightarrow> bool" where
  "is_error_entry (Accepted n warned seg) = False"
| "is_error_entry _ = True"

section \<open>Segment extraction: \<^verbatim>\<open>process_segment\<close> and the second loop of \<^verbatim>\<open>main\<close>\<close>

text \<open>
  \<^verbatim>\<open>f"{index:02d}"\<close>: the decimal digits of the index, padded on the left with zeros
  to a width of at least two.
\<close>

definition digit_chr :: "nat \<Rightarrow> char" where
  "digit_chr d = ''0123456789'' ! d"

fun str_nat :: "nat \<Rightarrow> string" where
  "str_nat n = (if n < 10 then [digit_chr n] else str_nat (n div 10) @ [digit_chr (n mod 10)])"

declare str_nat.simps [simp del]

definition fmt_02d :: "nat \<Rightarrow> string" where
  "fmt_02d n = replicate (2 - length (str_nat n)) CHR ''0'' @ str_nat n"

text \<open>
  \<^verbatim>\<open>os.path.join\<close> and \<^verbatim>\<open>os.path.basename\<close> on POSIX paths, and
  \<^verbatim>\<open>str.endswith\<close>.
\<close>

definition path_join :: "string \<Rightarrow> string \<Rightarrow> string" where
  "path_join d n =
     (if n \<noteq> [] \<and> hd n = CHR ''/'' then n
      else if d = [] \<or> last d = CHR ''/'' then d @ n
      else d @ ''/'' @ n)"

definition basename :: "string \<Rightarrow> string" where
  "basename p = rev (takeWhile (\<lambda>c. c \<noteq> CHR ''/'') (rev p))"

definition endswith :: "string \<Rightarrow> string \<Rightarrow> bool" where
  "endswith s suffix = (length suffix \<le> length s \<and> drop (length s - length suffix) s = suffix)"

text \<open>
  The application object: its two directories, and the names of the files that the
  output directory holds. The object lives in the Streamlit session state, so the
  directory and its files persist from one processing run to the next.
\<close>

record app =
  temp_dir :: string
  output_dir :: string
  output_files :: "string list"

definition init_app :: "string \<Rightarrow> app" where
  "init_app tmp =
     \<lparr>temp_dir = tmp, output_dir = path_join tmp ''output_videos'', output_files = []\<rparr>"

definition write_file :: "string \<Rightarrow> string list \<Rightarrow> string list" where
  "write_file name files = (if name \<in> set files then files else files @ [name])"

text \<open>
  The external transcoder. The model keeps of the command line what the program
  computes: the start offset, the duration, the optional crop filter and the output
  path. One call either exits with a return code and its standard error text, or runs
  into the 120 second timeout; in both cases it may have written the output file.
\<close>

record ffmpeg_command =
  cmd_start :: pyfloat
  cmd_duration :: pyfloat
  cmd_crop :: "crop_info option"
  cmd_output :: string

datatype ffmpeg_run = Exited int string bool | TimedOut bool

text \<open>
  The pair returned by \<^verbatim>\<open>process_segment\<close>:
  \<^item> \<open>Done path\<close> is \<^verbatim>\<open>(True, output_path)\<close>;
  \<^item> \<open>NoDimensions\<close> is \<^verbatim>\<open>(False, "Could not get video dimensions")\<close>;
  \<^item> \<open>ToolError err\<close> is \<^verbatim>\<open>(False, f"FFmpeg error: {result.stderr}")\<close>;
  \<^item> \<open>Raised e\<close> is \<^verbatim>\<open>(False, f"Exception: {e}")\<close>, from \<^verbatim>\<open>except Exception\<close>.
\<close>

datatype seg_result = Done string | NoDimensions | ToolError string | Raised exn

definition output_path_of :: "app \<Rightarrow> nat \<Rightarrow> string" where
  "output_path_of a index = path_join (output_dir a) (''video_part_'' @ fmt_02d index @ ''.mp4'')"

text \<open>
  Lines 193 to 202: the crop is computed only for a segment with a ratio, from the
  probed dimensions. \<open>Inl\<close> carries the result that \<^verbatim>\<open>process_segment\<close> returns
  without calling the transcoder.
\<close>

definition prepare_crop :: "(int \<times> int) option \<Rightarrow> segment \<Rightarrow> seg_result + crop_info option" where
  "prepare_crop dimensions segment_info =
     (case seg_aspect_ratio segment_info of
        None \<Rightarrow> Inr None
      | Some ratio \<Rightarrow>
          (case dimensions of
             None \<Rightarrow> Inl NoDimensions
           | Some (w, h) \<Rightarrow>
               (case calculate_crop_dimensions w h (Some ratio) of
                  Inl e \<Rightarrow> Inl (Raised e)
                | Inr crop \<Rightarrow> Inr crop)))"

definition build_command :: "app \<Rightarrow> segment \<Rightarrow> nat \<Rightarrow> crop_info option \<Rightarrow> ffmpeg_command" where
  "build_command a segment_info index crop =
     \<lparr>cmd_start = seg_start segment_info,
      cmd_duration = seg_duration segment_info,
      cmd_crop = crop,
      cmd_output = output_path_of a index\<rparr>"

definition record_output :: "app \<Rightarrow> nat \<Rightarrow> bool \<Rightarrow> app" where
  "record_output a index wrote =
     (if wrote
      then a\<lparr>output_files := write_file (basename (output_path_of a index)) (output_files a)\<rparr>
      else a)"

definition output_exists :: "app \<Rightarrow> nat \<Rightarrow> bool" where
  "output_exists a index = (basename (output_path_of a index) \<in> set (output_files a))"

definition process_segment ::
  "app \<Rightarrow> (int \<times> int) option \<Rightarrow> (ffmpeg_command \<Rightarrow> ffmpeg_run) \<Rightarrow> segment \<Rightarrow> nat
     \<Rightarrow> app \<times> seg_result" where
  "process_segment a dimensions ffmpeg segment_info index =
     (case prepare_crop dimensions segment_info of
        Inl early \<Rightarrow> (a, early)
      | Inr crop \<Rightarrow>
          (case ffmpeg (build_command a segment_info index crop) of
             TimedOut wrote \<Rightarrow> (record_output a index wrote, Raised TimeoutExpired)
           | Exited returncode stderr wrote \<Rightarrow>
               (let a' = record_output a index wrote
                in if returncode = 0 \<and> output_exists a' index
                   then (a', Done (output_path_of a index))
                   else (a', ToolError stderr))))"

text \<open>
  Lines 386 to 398: every accepted segment is processed in turn under its 1-based
  position; the paths of the successes and the numbered failures are collected.
\<close>

fun process_all ::
  "app \<Rightarrow> (int \<times> int) option \<Rightarrow> (ffmpeg_command \<Rightarrow> ffmpeg_run) \<Rightarrow> nat \<Rightarrow> segment list
     \<Rightarrow> app \<times> string list \<times> (nat \<times> seg_result) list" where
  "process_all a dimensions ffmpeg i [] = (a, [], [])"
| "process_all a dimensions ffmpeg i (seg # segs) =
     (case process_segment a dimensions ffmpeg seg (i + 1) of
        (a', res) \<Rightarrow>
          (case process_all a' dimensions ffmpeg (Suc i) segs of
             (a'', successful_segments, failed_segments) \<Rightarrow>
               (case res of
                  Done path \<Rightarrow> (a'', path # successful_segments, failed_segments)
                | _ \<Rightarrow> (a'', successful_segments, (i + 1, res) # failed_segments))))"

section \<open>Archive of the results: \<^verbatim>\<open>create_zip_file\<close>\<close>

text \<open>The member names of the archive: every name of the output directory ending in \<^verbatim>\<open>.mp4\<close>.\<close>

definition create_zip_file :: "app \<Rightarrow> string list" where
  "create_zip_file a = filter (\<lambda>filename. endswith filename ''.mp4'') (output_files a)"

text \<open>
  One press of the processing button, lines 379 to 424: the segments are processed and,
  when at least one succeeded, the archive is built.
\<close>

definition process_button ::
  "app \<Rightarrow> (int \<times> int) option \<Rightarrow> (ffmpeg_command \<Rightarrow> ffmpeg_run) \<Rightarrow> segment list
     \<Rightarrow> app \<times> string list \<times> (nat \<times> seg_result) list \<times> string list option" where
  "process_button a dimensions ffmpeg segments =
     (case process_all a dimensions ffmpeg 0 segments of
        (a', successful_segments, failed_segments) \<Rightarrow>
          (a', successful_segments, failed_segments,
           if successful_segments \<noteq> [] then Some (create_zip_file a') else None))"

section \<open>The forms of input that the specification names\<close>

text \<open>
  The choices of the ratio \<^verbatim>\<open>selectbox\<close>, line 337: the only ratio texts that the
  user interface can hand to the segment loop.
\<close>

definition ratio_options :: "string list" where
  "ratio_options = [''original'', ''16:9'', ''1:1'', ''3:4'', ''9:16'']"




section \<open>Properties of the crop geometry\<close>








section \<open>Properties of the time and ratio parsers\<close>


lemma py_float_error: "py_float s = Inl e \<Longrightarrow> e = ValueError"
  by (auto simp: py_float_def split: prod.splits if_splits option.splits list.splits)


lemma split_on_absent: "c \<notin> set s \<Longrightarrow> split_on c s = [s]"
  by (induction s) auto









lemma parse_aspect_ratio_error: "parse_aspect_ratio r = Inl e \<Longrightarrow> e = ValueError"
  by (auto simp: parse_aspect_ratio_def split: if_splits list.splits sum.splits
      dest: py_float_error)

lemma parse_aspect_ratio_pair:
  assumes "lower r \<noteq> ''original''"
  shows "parse_aspect_ratio r = Inr res \<longleftrightarrow>
     (\<exists>a b w h. split_on CHR '':'' r = [a, b] \<and> py_float a = Inr w \<and> py_float b = Inr h
        \<and> res = Some (w, h))"
proof (cases "CHR '':'' \<in> set r")
  case False
  then have "split_on CHR '':'' r = [r]" by (rule split_on_absent)
  with False assms show ?thesis by (simp add: parse_aspect_ratio_def)
next
  case True
  with assms show ?thesis
    by (auto simp: parse_aspect_ratio_def split: list.splits sum.splits)
qed

lemma ratio_options_values:
  "map parse_aspect_ratio ratio_options =
     [Inr None, Inr (Some (Finite 16, Finite 9)), Inr (Some (Finite 1, Finite 1)),
      Inr (Some (Finite 3, Finite 4)), Inr (Some (Finite 9, Finite 16))]"
  by code_simp


text \<open>
  \<^bold>\<open>C4\<close>, as the claim states it, fails: \<^verbatim>\<open>"0:9"\<close> and \<^verbatim>\<open>"-16:9"\<close> do not fail,
  they are returned as the pairs \<open>(0, 9)\<close> and \<open>(-16, 9)\<close>.
\<close>

theorem ratio_parser_accepts_nonpositive:
  "parse_aspect_ratio ''0:9'' = Inr (Some (Finite 0, Finite 9)) \<and>
   parse_aspect_ratio ''-16:9'' = Inr (Some (Finite (- 16), Finite 9))"
  by code_simp

text \<open>
  \<^bold>\<open>C4\<close>, amended. \<^verbatim>\<open>parse_aspect_ratio\<close> maps the word \<^verbatim>\<open>original\<close>, in any
  letter case, to \<^verbatim>\<open>None\<close>; any other text gives the pair \<open>(w, h)\<close> exactly when it
  splits at its colons into two parts that \<^verbatim>\<open>float()\<close> reads as \<open>w\<close> and \<open>h\<close>, of
  any sign, and raises \<^verbatim>\<open>ValueError\<close> otherwise, as \<^verbatim>\<open>"16-9"\<close> does. The five
  ratios that the user interface offers all give the original ratio or a pair of
  positive numbers.
\<close>

theorem ratio_parser_forms:
  "(lower r = ''original'' \<longrightarrow> parse_aspect_ratio r = Inr None)
   \<and> (lower r \<noteq> ''original'' \<longrightarrow>
        (parse_aspect_ratio r = Inr res \<longleftrightarrow>
           (\<exists>a b w h. split_on CHR '':'' r = [a, b] \<and> py_float a = Inr w \<and> py_float b = Inr h
              \<and> res = Some (w, h))))
   \<and> (parse_aspect_ratio r = Inl e \<longrightarrow> e = ValueError)
   \<and> map parse_aspect_ratio [''original'', ''Original'', ''ORIGINAL'', ''16:9'', ''16-9'']
       = [Inr None, Inr None, Inr None, Inr (Some (Finite 16, Finite 9)), Inl ValueError]
   \<and> map parse_aspect_ratio ratio_options
       = [Inr None, Inr (Some (Finite 16, Finite 9)), Inr (Some (Finite 1, Finite 1)),
          Inr (Some (Finite 3, Finite 4)), Inr (Some (Finite 9, Finite 16))]"
proof -
  have ex: "map parse_aspect_ratio [''original'', ''Original'', ''ORIGINAL'', ''16:9'', ''16-9'']
       = [Inr None, Inr None, Inr None, Inr (Some (Finite 16, Finite 9)), Inl ValueError]"
    by code_simp
  have orig: "lower r = ''original'' \<Longrightarrow> parse_aspect_ratio r = Inr None"
    by (simp add: parse_aspect_ratio_def)
  show ?thesis
    using ex orig parse_aspect_ratio_pair [of r res] parse_aspect_ratio_error [of r e]
      ratio_options_values
    by blast
qed

text \<open>The theorem at \<^verbatim>\<open>"OriGinal"\<close>, at \<^verbatim>\<open>"4:3"\<close> and at \<^verbatim>\<open>"4:x"\<close>.\<close>

theorem ratio_parser_forms_witness:
  "lower ''OriGinal'' = ''original'' \<and> parse_aspect_ratio ''OriGinal'' = Inr None
   \<and> lower ''4:3'' \<noteq> ''original''
   \<and> split_on CHR '':'' ''4:3'' = [''4'', ''3'']
   \<and> py_float ''4'' = Inr (Finite 4) \<and> py_float ''3'' = Inr (Finite 3)
   \<and> parse_aspect_ratio ''4:3'' = Inr (Some (Finite 4, Finite 3))
   \<and> parse_aspect_ratio ''4:x'' = Inl ValueError"
proof -
  have h1: "lower ''OriGinal'' = ''original''" by code_simp
  have h2: "lower ''4:3'' \<noteq> ''original''" by code_simp
  have h3: "split_on CHR '':'' ''4:3'' = [''4'', ''3'']" by code_simp
  have h4: "py_float ''4'' = Inr (Finite 4)" "py_float ''3'' = Inr (Finite 3)" by code_simp+
  have h5: "lower ''4:x'' \<noteq> ''original''" by code_simp
  have h6: "split_on CHR '':'' ''4:x'' = [''4'', ''x'']" by code_simp
  have h7: "py_float ''x'' = Inl ValueError" by code_simp
  have a: "parse_aspect_ratio ''OriGinal'' = Inr None"
    using ratio_parser_forms [of "''OriGinal''"] h1 by blast
  have b: "parse_aspect_ratio ''4:3'' = Inr (Some (Finite 4, Finite 3))"
    using ratio_parser_forms [of "''4:3''" "Some (Finite 4, Finite 3)"] h2 h3 h4 by blast
  have "\<not> (\<exists>res. parse_aspect_ratio ''4:x'' = Inr res)"
  proof
    assume "\<exists>res. parse_aspect_ratio ''4:x'' = Inr res"
    then obtain res where "parse_aspect_ratio ''4:x'' = Inr res" ..
    with ratio_parser_forms [of "''4:x''" res] h5 h6 h7 show False by auto
  qed
  then obtain e where "parse_aspect_ratio ''4:x'' = Inl e"
    by (cases "parse_aspect_ratio ''4:x''") auto
  with ratio_parser_forms [of "''4:x''" _ e] have c: "parse_aspect_ratio ''4:x'' = Inl ValueError"
    by blast
  from h1 h2 h3 h4 a b c show ?thesis by blast
qed

section \<open>Properties of the segment configuration loop\<close>

lemma validate_segment_index:
  "validate_segment D i s e r = Inr out \<Longrightarrow> outcome_index out = i + 1"
  by (auto simp: validate_segment_def Let_def split: sum.splits pyval.splits if_splits)

lemma configure_segment_Some:
  "configure_segment D i (s, e, r) = Inr (Some out)
     \<Longrightarrow> outcome_index out = i + 1 \<and> s \<noteq> [] \<and> e \<noteq> []"
  by (auto simp: configure_segment_def validate_segment_index
      split: if_splits sum.splits exn.splits)

lemma configure_segment_None:
  "configure_segment D i (s, e, r) = Inr None \<longleftrightarrow> (s = [] \<or> e = [])"
  by (auto simp: configure_segment_def split: if_splits sum.splits exn.splits)

lemma outcomes_partition:
  "length (filter is_error_entry outs) + length (accepted_segments outs) = length outs"
  by (induction outs rule: accepted_segments.induct) auto

text \<open>
  \<^bold>\<open>C1\<close>, as the claim states it, fails: a request whose end text is still empty
  produces no outcome at all, neither a plan nor an error entry.
\<close>

theorem planner_skips_blank_request:
  "configure_segments (Finite 100) 0 [(''5'', [], ''original'')] = Inr []"
  by code_simp

text \<open>
  \<^bold>\<open>C1\<close>, amended. Whenever the configuration loop runs to its end, it emits exactly
  one outcome, a plan or an explicit error entry, for every request whose start and end
  texts are both non-empty, in the order of the requests and under the 1-based number of
  the request; a request with an empty start or end text emits nothing.
\<close>

theorem planner_one_outcome_per_filled_request:
  assumes "configure_segments D i reqs = Inr outs"
  shows "map outcome_index outs =
           map (\<lambda>(k, req). k + 1)
             (filter (\<lambda>(k, s, e, r). s \<noteq> [] \<and> e \<noteq> []) (enumerate i reqs))
       \<and> length outs = length (filter (\<lambda>(s, e, r). s \<noteq> [] \<and> e \<noteq> []) reqs)
       \<and> length (filter is_error_entry outs) + length (accepted_segments outs) = length outs"
proof -
  have "map outcome_index outs =
           map (\<lambda>(k, req). k + 1)
             (filter (\<lambda>(k, s, e, r). s \<noteq> [] \<and> e \<noteq> []) (enumerate i reqs))
       \<and> length outs = length (filter (\<lambda>(s, e, r). s \<noteq> [] \<and> e \<noteq> []) reqs)"
    using assms
  proof (induction reqs arbitrary: i outs)
    case Nil
    then show ?case by simp
  next
    case (Cons req reqs)
    obtain s e r where req: "req = (s, e, r)" by (cases req) auto
    from Cons.prems obtain out rest where
      step: "configure_segment D i (s, e, r) = Inr out"
      and tail: "configure_segments D (Suc i) reqs = Inr rest"
      and outs: "outs = (case out of None \<Rightarrow> rest | Some v \<Rightarrow> v # rest)"
      by (auto simp: req split: sum.splits)
    note IH = Cons.IH [OF tail]
    show ?case
    proof (cases out)
      case None
      with step have "s = [] \<or> e = []" by (simp add: configure_segment_None)
      with IH outs None show ?thesis by (auto simp: req)
    next
      case (Some v)
      with step have "outcome_index v = i + 1 \<and> s \<noteq> [] \<and> e \<noteq> []"
        by (simp add: configure_segment_Some)
      with IH outs Some show ?thesis by (simp add: req)
    qed
  qed
  then show ?thesis using outcomes_partition [of outs] by blast
qed

text \<open>
  The theorem on four requests against a source of 100 seconds: a start beyond the
  source, an unfilled request, a clamped request and a malformed start text.
\<close>

theorem planner_one_outcome_per_filled_request_witness:
  "configure_segments (Finite 100) 0
     [(''110'', ''120'', ''original''), ([], ''5'', ''1:1''), (''50'', ''150'', ''16:9''),
      (''abc'', ''5'', ''1:1'')]
   = Inr [StartExceedsDuration 1,
          Accepted 3 True \<lparr>seg_start = Finite 50, seg_end = Finite 100,
             seg_duration = Finite 50, seg_aspect_ratio = Some (Finite 16, Finite 9),
             seg_ratio_text = ''16:9''\<rparr>,
          InvalidFormat 4]
   \<and> map outcome_index
        [StartExceedsDuration 1,
          Accepted 3 True \<lparr>seg_start = Finite 50, seg_end = Finite 100,
             seg_duration = Finite 50, seg_aspect_ratio = Some (Finite 16, Finite 9),
             seg_ratio_text = ''16:9''\<rparr>,
          InvalidFormat 4] = [1, 3, 4]"
proof -
  have h: "configure_segments (Finite 100) 0
     [(''110'', ''120'', ''original''), ([], ''5'', ''1:1''), (''50'', ''150'', ''16:9''),
      (''abc'', ''5'', ''1:1'')]
   = Inr [StartExceedsDuration 1,
          Accepted 3 True \<lparr>seg_start = Finite 50, seg_end = Finite 100,
             seg_duration = Finite 50, seg_aspect_ratio = Some (Finite 16, Finite 9),
             seg_ratio_text = ''16:9''\<rparr>,
          InvalidFormat 4]"
    by code_simp
  from planner_one_outcome_per_filled_request [OF h] h show ?thesis
    by (simp add: enumerate_eq_zip upt_rec)
qed

text \<open>
  \<^bold>\<open>C5.\<close> No error of the configuration path should escape to the boundary layer.
  The code breaks this on a start text with four colon-separated parts:
  \<^verbatim>\<open>parse_time_input\<close> returns \<^verbatim>\<open>None\<close> for it, the comparison with the end time
  raises \<^verbatim>\<open>TypeError\<close>, and \<^verbatim>\<open>except ValueError\<close> does not catch it.
\<close>

theorem four_part_time_escapes:
  "parse_time_input ''1:2:3:4'' = Inr PyNone \<and>
   configure_segments (Finite 100) 0 [(''1:2:3:4'', ''10'', ''original'')] = Inl TypeError"
  by code_simp




section \<open>Properties of the extraction and of the archive\<close>

lemma digit_cases:
  "d < 10 \<Longrightarrow> d = 0 \<or> d = 1 \<or> d = 2 \<or> d = 3 \<or> d = 4 \<or> d = 5 \<or> d = 6 \<or> d = 7 \<or> d = 8
     \<or> d = (9::nat)"
  by arith

lemma digit_chr_props: "d < 10 \<Longrightarrow> is_digit (digit_chr d) \<and> digit_val (digit_chr d) = d"
  using digit_cases [of d] by (auto simp: digit_chr_def is_digit_def digit_val_def)

lemma digits_val_snoc: "is_digit c \<Longrightarrow> digits_val (s @ [c]) = 10 * digits_val s + digit_val c"
  by (simp add: digits_val_def)

lemma str_nat_digits:
  "list_all is_digit (str_nat n) \<and> digits_val (str_nat n) = n \<and> str_nat n \<noteq> []"
proof (induction n rule: str_nat.induct)
  case (1 n)
  show ?case
  proof (cases "n < 10")
    case True
    then show ?thesis using digit_chr_props [of n]
      by (simp add: str_nat.simps [of n] digits_val_def)
  next
    case False
    have m: "n mod 10 < 10" by simp
    from False 1 have IH: "list_all is_digit (str_nat (n div 10))"
      "digits_val (str_nat (n div 10)) = n div 10" by simp_all
    show ?thesis using False IH digit_chr_props [OF m]
      by (simp add: str_nat.simps [of n] digits_val_snoc)
  qed
qed

lemma str_nat_small:
  assumes "n < 100"
  shows "length (str_nat n) = (if n < 10 then 1 else 2)"
proof (cases "n < 10")
  case True
  then show ?thesis by (simp add: str_nat.simps [of n])
next
  case False
  with assms have "n div 10 < 10" by simp
  then have "str_nat (n div 10) = [digit_chr (n div 10)]"
    by (simp add: str_nat.simps [of "n div 10"])
  with False show ?thesis by (simp add: str_nat.simps [of n])
qed

lemma digits_val_zeros: "digits_val (replicate k CHR ''0'' @ s) = digits_val s"
  by (induction k) (simp_all add: digits_val_def is_digit_def digit_val_def)

lemma fmt_02d_props:
  "list_all is_digit (fmt_02d n) \<and> digits_val (fmt_02d n) = n
     \<and> (n < 100 \<longrightarrow> length (fmt_02d n) = 2)"
proof -
  have z: "is_digit CHR ''0''" by (simp add: is_digit_def)
  have 1: "list_all is_digit (fmt_02d n)"
    using str_nat_digits [of n] z by (auto simp: fmt_02d_def list_all_iff)
  have 2: "digits_val (fmt_02d n) = n"
    using str_nat_digits [of n] by (simp add: fmt_02d_def digits_val_zeros)
  have 3: "length (fmt_02d n) = 2" if "n < 100"
    using str_nat_small [OF that] by (simp add: fmt_02d_def)
  from 1 2 3 show ?thesis by blast
qed

lemma process_all_counts:
  "process_all a dims ffmpeg i segs = (a', succ, fail)
     \<Longrightarrow> length succ + length fail = length segs"
proof (induction segs arbitrary: a i a' succ fail)
  case Nil
  then show ?case by simp
next
  case (Cons seg segs)
  obtain a1 res where step: "process_segment a dims ffmpeg seg (i + 1) = (a1, res)"
    by (cases "process_segment a dims ffmpeg seg (i + 1)") auto
  obtain a2 s2 f2 where tail: "process_all a1 dims ffmpeg (Suc i) segs = (a2, s2, f2)"
    by (cases "process_all a1 dims ffmpeg (Suc i) segs") auto
  from Cons.IH [OF tail] have "length s2 + length f2 = length segs" .
  with Cons.prems step tail show ?case
    by (cases res) auto
qed

lemma process_segment_outcome:
  assumes "prepare_crop dims seg = Inr crop"
  shows "(ffmpeg (build_command a seg index crop) = Exited rc err wrote \<and>
            (rc \<noteq> 0 \<or> \<not> output_exists (record_output a index wrote) index)
          \<longrightarrow> snd (process_segment a dims ffmpeg seg index) = ToolError err)
     \<and> (ffmpeg (build_command a seg index crop) = Exited 0 err wrote \<and>
            output_exists (record_output a index wrote) index
          \<longrightarrow> snd (process_segment a dims ffmpeg seg index) = Done (output_path_of a index))
     \<and> (ffmpeg (build_command a seg index crop) = TimedOut wrote
          \<longrightarrow> snd (process_segment a dims ffmpeg seg index) = Raised TimeoutExpired)"
  using assms by (auto simp: process_segment_def Let_def)

text \<open>
  \<^bold>\<open>C9.\<close> \<^verbatim>\<open>process_segment\<close> names the output from the 1-based index: the name
  is \<^verbatim>\<open>video_part_\<close>, the decimal digits of the index padded with zeros, and
  \<^verbatim>\<open>.mp4\<close>; the digits read back as the index and are exactly two for an index
  below 100 (the interface allows at most 10 segments). Once the transcoder is called,
  a non-zero exit or a missing output file gives the failure that carries the tool's
  standard error text, a zero exit with the file present gives the success with the
  output path, and a timeout gives a failure of that segment. The loop over the
  segments ends with one success or failure per segment, whatever the tool did.
\<close>

theorem extract_naming_and_outcome:
  "list_all is_digit (fmt_02d index) \<and> digits_val (fmt_02d index) = index
   \<and> (index < 100 \<longrightarrow> length (fmt_02d index) = 2)
   \<and> (prepare_crop dims seg = Inr crop \<longrightarrow>
        cmd_output (build_command a seg index crop)
          = path_join (output_dir a) (''video_part_'' @ fmt_02d index @ ''.mp4'')
        \<and> (ffmpeg (build_command a seg index crop) = Exited rc err wrote \<and>
              (rc \<noteq> 0 \<or> \<not> output_exists (record_output a index wrote) index)
            \<longrightarrow> snd (process_segment a dims ffmpeg seg index) = ToolError err)
        \<and> (ffmpeg (build_command a seg index crop) = Exited 0 err wrote \<and>
              output_exists (record_output a index wrote) index
            \<longrightarrow> snd (process_segment a dims ffmpeg seg index)
                  = Done (path_join (output_dir a) (''video_part_'' @ fmt_02d index @ ''.mp4'')))
        \<and> (ffmpeg (build_command a seg index crop) = TimedOut wrote
            \<longrightarrow> snd (process_segment a dims ffmpeg seg index) = Raised TimeoutExpired))
   \<and> (process_all a dims ffmpeg i segs = (a', succ, fail)
        \<longrightarrow> length succ + length fail = length segs)"
proof -
  have name: "cmd_output (build_command a seg index crop)
          = path_join (output_dir a) (''video_part_'' @ fmt_02d index @ ''.mp4'')"
    by (simp add: build_command_def output_path_of_def)
  have path: "output_path_of a index
          = path_join (output_dir a) (''video_part_'' @ fmt_02d index @ ''.mp4'')"
    by (simp add: output_path_of_def)
  show ?thesis
    using fmt_02d_props [of index] name
      process_segment_outcome [of dims seg crop ffmpeg a index rc err wrote]
      process_all_counts [of a dims ffmpeg i segs a' succ fail]
    unfolding path by blast
qed

text \<open>
  The theorem at segment 7 of a fresh session, for a segment without a ratio: a run that
  exits with code 1, a run that exits with code 0 without writing the file, a run that
  succeeds, a run that times out, and a loop of three segments whose second run times out.
\<close>

theorem extract_naming_and_outcome_witness:
  "fmt_02d 7 = ''07''
   \<and> snd (process_segment (init_app ''/tmp/t'') None (\<lambda>c. Exited 1 ''boom'' True)
        \<lparr>seg_start = Finite 0, seg_end = Finite 10, seg_duration = Finite 10,
         seg_aspect_ratio = None, seg_ratio_text = ''original''\<rparr> 7) = ToolError ''boom''
   \<and> snd (process_segment (init_app ''/tmp/t'') None (\<lambda>c. Exited 0 ''quiet'' False)
        \<lparr>seg_start = Finite 0, seg_end = Finite 10, seg_duration = Finite 10,
         seg_aspect_ratio = None, seg_ratio_text = ''original''\<rparr> 7) = ToolError ''quiet''
   \<and> snd (process_segment (init_app ''/tmp/t'') None (\<lambda>c. Exited 0 [] True)
        \<lparr>seg_start = Finite 0, seg_end = Finite 10, seg_duration = Finite 10,
         seg_aspect_ratio = None, seg_ratio_text = ''original''\<rparr> 7)
       = Done ''/tmp/t/output_videos/video_part_07.mp4''
   \<and> snd (process_segment (init_app ''/tmp/t'') None (\<lambda>c. TimedOut False)
        \<lparr>seg_start = Finite 0, seg_end = Finite 10, seg_duration = Finite 10,
         seg_aspect_ratio = None, seg_ratio_text = ''original''\<rparr> 7) = Raised TimeoutExpired
   \<and> length [''/tmp/t/output_videos/video_part_01.mp4'',
              ''/tmp/t/output_videos/video_part_03.mp4'']
       + length [(2::nat, Raised TimeoutExpired)] = 3"
proof -
  let ?a = "init_app ''/tmp/t''"
  let ?s = "\<lparr>seg_start = Finite 0, seg_end = Finite 10, seg_duration = Finite 10,
         seg_aspect_ratio = None, seg_ratio_text = ''original''\<rparr>"
  let ?slow = "\<lambda>c. if cmd_output c = ''/tmp/t/output_videos/video_part_02.mp4''
                  then TimedOut False else Exited 0 [] True"
  have crop: "prepare_crop None ?s = Inr None" by (simp add: prepare_crop_def)
  have seven: "(7::nat) < 100" by simp
  have f7: "fmt_02d 7 = ''07''"
    by (simp add: fmt_02d_def str_nat.simps [of 7] digit_chr_def)
  have len: "length (fmt_02d 7) = 2"
    using extract_naming_and_outcome [where index = 7] seven by blast
  have e1: "output_exists (record_output ?a 7 True) 7" by code_simp
  have e2: "\<not> output_exists (record_output ?a 7 False) 7" by code_simp
  have p: "path_join (output_dir ?a) (''video_part_'' @ fmt_02d 7 @ ''.mp4'')
      = ''/tmp/t/output_videos/video_part_07.mp4''"
    unfolding f7 by code_simp
  have r1: "snd (process_segment ?a None (\<lambda>c. Exited 1 ''boom'' True) ?s 7) = ToolError ''boom''"
    using extract_naming_and_outcome [where index = 7 and dims = None and seg = ?s
        and crop = None and a = ?a and ffmpeg = "\<lambda>c. Exited 1 ''boom'' True"
        and rc = 1 and err = "''boom''" and wrote = True] crop
    by simp
  have r2: "snd (process_segment ?a None (\<lambda>c. Exited 0 ''quiet'' False) ?s 7)
      = ToolError ''quiet''"
    using extract_naming_and_outcome [where index = 7 and dims = None and seg = ?s
        and crop = None and a = ?a and ffmpeg = "\<lambda>c. Exited 0 ''quiet'' False"
        and rc = 0 and err = "''quiet''" and wrote = False] crop e2
    by simp
  have r3: "snd (process_segment ?a None (\<lambda>c. Exited 0 [] True) ?s 7)
      = Done ''/tmp/t/output_videos/video_part_07.mp4''"
    using extract_naming_and_outcome [where index = 7 and dims = None and seg = ?s
        and crop = None and a = ?a and ffmpeg = "\<lambda>c. Exited 0 [] True"
        and err = "[]" and wrote = True] crop e1 p
    by simp
  have r4: "snd (process_segment ?a None (\<lambda>c. TimedOut False) ?s 7) = Raised TimeoutExpired"
    using extract_naming_and_outcome [where index = 7 and dims = None and seg = ?s
        and crop = None and a = ?a and ffmpeg = "\<lambda>c. TimedOut False" and wrote = False] crop
    by simp
  have run: "process_all ?a None ?slow 0 [?s, ?s, ?s]
      = (\<lparr>temp_dir = ''/tmp/t'', output_dir = ''/tmp/t/output_videos'',
           output_files = [''video_part_01.mp4'', ''video_part_03.mp4'']\<rparr>,
         [''/tmp/t/output_videos/video_part_01.mp4'', ''/tmp/t/output_videos/video_part_03.mp4''],
         [(2, Raised TimeoutExpired)])"
    by code_simp
  have r5: "length [''/tmp/t/output_videos/video_part_01.mp4'',
              ''/tmp/t/output_videos/video_part_03.mp4'']
       + length [(2::nat, Raised TimeoutExpired)] = length [?s, ?s, ?s]"
    using extract_naming_and_outcome [where a = ?a and dims = None and ffmpeg = ?slow
        and i = 0 and segs = "[?s, ?s, ?s]"] run
    by blast
  from f7 r1 r2 r3 r4 r5 show ?thesis by simp
qed

text \<open>
  \<^bold>\<open>C3.\<close> The archive should hold exactly the successes it is given. The code
  breaks this: \<^verbatim>\<open>create_zip_file\<close> takes no list of successes and packs every
  \<^verbatim>\<open>.mp4\<close> file of the session's output directory. After a first run of two
  segments, a second run of one segment in the same session has the single success
  \<^verbatim>\<open>video_part_01.mp4\<close>, and its archive also holds \<^verbatim>\<open>video_part_02.mp4\<close> of the
  first run.
\<close>

theorem archive_keeps_earlier_files:
  "(case process_button (init_app ''/tmp/t'') None (\<lambda>c. Exited 0 [] True)
            [\<lparr>seg_start = Finite 0, seg_end = Finite 10, seg_duration = Finite 10,
               seg_aspect_ratio = None, seg_ratio_text = ''original''\<rparr>,
             \<lparr>seg_start = Finite 10, seg_end = Finite 20, seg_duration = Finite 10,
               seg_aspect_ratio = None, seg_ratio_text = ''original''\<rparr>] of
      (a, successes, failures, archive) \<Rightarrow>
        (case process_button a None (\<lambda>c. Exited 0 [] True)
                [\<lparr>seg_start = Finite 0, seg_end = Finite 5, seg_duration = Finite 5,
                   seg_aspect_ratio = None, seg_ratio_text = ''original''\<rparr>] of
           (a', successes', failures', archive') \<Rightarrow> (map basename successes', archive')))
     = ([''video_part_01.mp4''], Some [''video_part_01.mp4'', ''video_part_02.mp4''])"
  by code_simp

end
